theory Spec2Isabelle
  imports Complex_Main "HOL-Library.Word" "HOL-Library.Log_Nat"
begin

section \<open>Common modelling decisions\<close>

text \<open>
  The two programs, \<^verbatim>\<open>iot.cc\<close> and \<^verbatim>\<open>security.cc\<close>, are scenario scripts on top of the
  ns-3 simulator. Their own code is: command-line parsing, the construction of the
  scenario, three trace callbacks and the arithmetic of the final report. The simulator
  itself is an external library. It enters the model only as the sequence of trace
  firings that it queues, a parameter of each \<open>main\<close>.

  A finite C++ \<^verbatim>\<open>double\<close> is a rational number, and the values of the model are
  rationals. Where the program truncates a double to an integer (the total of packets
  sent), the rounding of every operation decides the integer that is printed, so the
  operations on that path round to the nearest binary64 value as the hardware does. The
  ratio and the energy figures are printed with a few decimals only; there the arithmetic
  is exact, and the model differs from the program by the rounding error of a double.
  Infinities and NaN are left out. The machine integers of the source keep their width:
  \<^verbatim>\<open>uint32_t\<close> is \<^typ>\<open>32 word\<close> and \<^verbatim>\<open>uint64_t\<close> is \<^typ>\<open>64 word\<close>, so that \<open>+\<close> and \<open>*\<close> wrap
  around as they do in C++.
\<close>

type_synonym double = rat
type_synonym uint32_t = "32 word"
type_synonym uint64_t = "64 word"

datatype error = UndefinedConversion

text \<open>
  Rounding to binary64 (IEEE 754, round to nearest, ties to even). A nonzero \<open>x\<close> with
  \<open>2 ^ e \<le> \<bar>x\<bar> < 2 ^ (e + 1)\<close> is rounded to a multiple of \<open>2 ^ (e - 52)\<close>, so that 53
  significant bits remain; below the normal range the multiples of \<open>2 ^ (- 1074)\<close> are the
  subnormal numbers. A result beyond the largest finite double is an infinity in the
  program; here it stays a large rational, which the conversion to an integer below
  rejects in the same way.
\<close>

definition exponent_of :: "rat \<Rightarrow> int" where
  "exponent_of x =
     (if 1 \<le> \<bar>x\<bar> then bitlen \<lfloor>\<bar>x\<bar>\<rfloor> - 1
      else let k = bitlen \<lfloor>1 / \<bar>x\<bar>\<rfloor> - 1
           in if \<bar>x\<bar> * 2 ^ nat k = 1 then - k else - k - 1)"

definition round_half_even :: "rat \<Rightarrow> int" where
  "round_half_even y =
     (let f = \<lfloor>y\<rfloor>; r = y - of_int f
      in if r < 1 / 2 then f else if 1 / 2 < r then f + 1 else if even f then f else f + 1)"

definition round_to_double :: "rat \<Rightarrow> double" where
  "round_to_double x =
     (if x = 0 then 0
      else let q = max (exponent_of x - 52) (- 1074)
           in of_int (round_half_even (x / 2 powi q)) * 2 powi q)"

definition double_sub :: "double \<Rightarrow> double \<Rightarrow> double" where
  "double_sub a b = round_to_double (a - b)"

definition double_mul :: "double \<Rightarrow> double \<Rightarrow> double" where
  "double_mul a b = round_to_double (a * b)"

text \<open>
  The conversion of a \<^verbatim>\<open>double\<close> to \<^verbatim>\<open>uint64_t\<close> discards the fractional part
  (truncation towards zero). C++ leaves the behaviour undefined when the truncated value
  cannot be represented in the destination type; the model returns an error there.
\<close>

definition truncate_double :: "double \<Rightarrow> int" where
  "truncate_double d = (if 0 \<le> d then \<lfloor>d\<rfloor> else - \<lfloor>- d\<rfloor>)"

definition double_to_uint64 :: "double \<Rightarrow> error + uint64_t" where
  "double_to_uint64 d =
     (let t = truncate_double d
      in if 0 \<le> t \<and> t < 2 ^ 64 then Inr (word_of_int t) else Inl UndefinedConversion)"

definition uint32_to_double :: "uint32_t \<Rightarrow> double" where
  "uint32_to_double w = of_nat (unat w)"

definition uint64_to_double :: "uint64_t \<Rightarrow> double" where
  "uint64_to_double w = of_nat (unat w)"

text \<open>
  Modelled from the spec: the event loop of the simulator (section 5). It dispatches the
  queued events in nondecreasing timestamp order, events with the same timestamp in the
  order in which they were queued, and events queued beyond the stop time are discarded.
\<close>

definition Simulator_Run :: "double \<Rightarrow> (double \<times> 'e) list \<Rightarrow> (double \<times> 'e) list" where
  "Simulator_Run stop queue = filter (\<lambda>ev. fst ev \<le> stop) (sort_key fst queue)"


section \<open>Scenario A: \<^verbatim>\<open>iot.cc\<close>\<close>

subsection \<open>Configuration and command line\<close>

text \<open>
  \<open>main\<close> declares five locals and registers two of them with the command line
  (\<^verbatim>\<open>cmd.AddValue("nIot", ...)\<close>, \<^verbatim>\<open>cmd.AddValue("simulationTime", ...)\<close>). A parsed command
  line either supplies a value of the variable's type or leaves the default. The duration
  is given as the decimal on the command line, and the variable holds the double nearest
  to it.
\<close>

record iot_args =
  arg_nIot :: "uint32_t option"
  arg_simulationTime :: "double option"

record iot_config =
  nIot :: uint32_t
  simulationTime :: double
  initialEnergyJ :: double
  distance :: double
  packetRate :: uint32_t

definition iot_cmd_Parse :: "iot_args \<Rightarrow> iot_config" where
  "iot_cmd_Parse a =
     \<lparr>nIot = (case arg_nIot a of None \<Rightarrow> 20 | Some n \<Rightarrow> n),
      simulationTime = (case arg_simulationTime a of None \<Rightarrow> 10 | Some t \<Rightarrow> round_to_double t),
      initialEnergyJ = 1,
      distance = 30,
      packetRate = 1\<rparr>"

subsection \<open>Topology, applications and energy sources\<close>

record traffic_flow =
  flow_node :: nat
  flow_start :: double
  flow_stop :: double

text \<open>
  What \<open>main\<close> builds before the run: one access point (node 0), \<open>nIot\<close> device nodes, the
  packet sink on the access point, one constant-rate client per device (the \<^verbatim>\<open>for\<close> loop
  of lines 112 to 118), one energy source per device initialised to \<open>initialEnergyJ\<close>, and
  the stop time handed to \<^verbatim>\<open>Simulator::Stop\<close>.
\<close>

record iot_scenario =
  wapNode :: "nat list"
  iotNodes :: "nat list"
  serverApps :: "double \<times> double"
  clientApps :: "traffic_flow list"
  iotEnergySources :: "double list"
  stopTime :: double

definition iot_setup :: "iot_config \<Rightarrow> iot_scenario" where
  "iot_setup c =
     \<lparr>wapNode = [0],
      iotNodes = map Suc [0..<unat (nIot c)],
      serverApps = (0, simulationTime c + 1),
      clientApps = map (\<lambda>i. \<lparr>flow_node = Suc i, flow_start = 1, flow_stop = simulationTime c\<rparr>)
                       [0..<unat (nIot c)],
      iotEnergySources = replicate (unat (nIot c)) (initialEnergyJ c),
      stopTime = simulationTime c\<rparr>"

subsection \<open>Trace firings and callbacks\<close>

text \<open>
  The simulator fires two trace sources that the program listens to: \<open>Rx\<close> of the packet
  sink (here tagged with the index of the device whose client sent the packet) and
  \<open>RemainingEnergy\<close> of an energy source (index of the source, old and new value).
  \<open>RxCallback\<close> ignores both of its arguments. \<open>EnergyTrace\<close> appends the current time,
  its context and the new value to the energy log; the context, a string in the source, is
  modelled by the index of the energy source.
\<close>

datatype iot_trace =
    SinkRx nat
  | RemainingEnergy nat double double

record iot_state =
  g_packetsReceived :: uint64_t
  energy_log :: "(double \<times> nat \<times> double) list"
  sources :: "double list"

definition RxCallback :: "iot_state \<Rightarrow> iot_state" where
  "RxCallback s = s\<lparr>g_packetsReceived := g_packetsReceived s + 1\<rparr>"

definition EnergyTrace :: "double \<Rightarrow> nat \<Rightarrow> double \<Rightarrow> double \<Rightarrow> iot_state \<Rightarrow> iot_state" where
  "EnergyTrace now context oldValue newValue s =
     s\<lparr>energy_log := energy_log s @ [(now, context, newValue)]\<rparr>"

text \<open>
  One dispatched firing. The energy source belongs to the simulator: its remaining energy
  is a traced value, every change of it is a firing, and it changes whether or not a
  callback is attached. \<^verbatim>\<open>GetRemainingEnergy\<close> reads the value of the last change. \<open>attached i\<close> is the result of
  \<^verbatim>\<open>source->TraceConnectWithoutContext("RemainingEnergy", ...)\<close> on source \<open>i\<close>, which the
  loop of lines 131 to 135 discards.
\<close>

fun iot_dispatch :: "(nat \<Rightarrow> bool) \<Rightarrow> iot_state \<Rightarrow> double \<times> iot_trace \<Rightarrow> iot_state" where
  "iot_dispatch attached s (now, SinkRx i) = RxCallback s"
| "iot_dispatch attached s (now, RemainingEnergy i oldValue newValue) =
     (let s' = s\<lparr>sources := (sources s)[i := newValue]\<rparr>
      in if attached i then EnergyTrace now i oldValue newValue s' else s')"

definition iot_initial :: "iot_scenario \<Rightarrow> iot_state" where
  "iot_initial sc = \<lparr>g_packetsReceived = 0, energy_log = [], sources = iotEnergySources sc\<rparr>"

definition iot_run :: "(nat \<Rightarrow> bool) \<Rightarrow> iot_scenario \<Rightarrow> (double \<times> iot_trace) list \<Rightarrow> iot_state" where
  "iot_run attached sc queue =
     foldl (iot_dispatch attached) (iot_initial sc) (Simulator_Run (stopTime sc) queue)"

subsection \<open>The report\<close>

text \<open>
  Line 160, \<^verbatim>\<open>uint64_t totalTxPackets = nIot * packetRate * (simulationTime - 1.0)\<close>: the
  product of the two \<^verbatim>\<open>uint32_t\<close> values wraps around and is converted to a double without
  loss, the subtraction and the multiplication round, and the result is truncated.
\<close>

definition compute_totalTxPackets :: "iot_config \<Rightarrow> error + uint64_t" where
  "compute_totalTxPackets c =
     double_to_uint64
       (double_mul (uint32_to_double (nIot c * packetRate c)) (double_sub (simulationTime c) 1))"

definition compute_pdr :: "uint64_t \<Rightarrow> uint64_t \<Rightarrow> double" where
  "compute_pdr received totalTx =
     (if 0 < totalTx then (uint64_to_double received / uint64_to_double totalTx) * 100 else 0)"

definition compute_totalEnergyConsumed :: "double \<Rightarrow> double list \<Rightarrow> nat \<Rightarrow> double" where
  "compute_totalEnergyConsumed e0 srcs n =
     foldl (\<lambda>acc i. acc + (e0 - srcs ! i)) 0 [0..<n]"

definition compute_avgEnergyConsumed :: "uint32_t \<Rightarrow> double \<Rightarrow> double" where
  "compute_avgEnergyConsumed n totalEnergy = (if 0 < n then totalEnergy / uint32_to_double n else 0)"

record iot_summary =
  totalTxPackets :: uint64_t
  packetsReceived :: uint64_t
  pdr :: double
  avgEnergyConsumed :: double

definition iot_report :: "iot_config \<Rightarrow> iot_scenario \<Rightarrow> iot_state \<Rightarrow> error + iot_summary" where
  "iot_report c sc s =
     (case compute_totalTxPackets c of
        Inl e \<Rightarrow> Inl e
      | Inr totalTx \<Rightarrow>
          Inr \<lparr>totalTxPackets = totalTx,
               packetsReceived = g_packetsReceived s,
               pdr = compute_pdr (g_packetsReceived s) totalTx,
               avgEnergyConsumed =
                 compute_avgEnergyConsumed (nIot c)
                   (compute_totalEnergyConsumed (initialEnergyJ c) (sources s)
                      (length (iotNodes sc)))\<rparr>)"

definition iot_main ::
  "iot_args \<Rightarrow> (nat \<Rightarrow> bool) \<Rightarrow> (double \<times> iot_trace) list \<Rightarrow> error + iot_summary" where
  "iot_main args attached queue =
     (let c = iot_cmd_Parse args; sc = iot_setup c
      in iot_report c sc (iot_run attached sc queue))"


section \<open>Scenario B: \<^verbatim>\<open>security.cc\<close>\<close>

subsection \<open>Globals and the inspection callback\<close>

type_synonym Ipv4Address = "32 word"

record InetSocketAddress =
  ipv4 :: Ipv4Address
  port :: "16 word"

datatype decision = Authorized | Unauthorized

text \<open>
  The three globals of the program, and the lines that \<^verbatim>\<open>NS_LOG_UNCOND\<close> prints: the tag,
  the source address and the size of the packet.
\<close>

record acl_state =
  g_acl :: "Ipv4Address list"
  g_numAuthorized :: uint32_t
  g_numUnauthorized :: uint32_t
  log_lines :: "(decision \<times> Ipv4Address \<times> uint32_t) list"

text \<open>
  \<^verbatim>\<open>std::find(first, last, value)\<close> returns the position of the first element equal to
  \<open>value\<close>, or \<open>last\<close> when there is none. The callback receives the size of the packet
  and the sender's address, already converted by \<^verbatim>\<open>InetSocketAddress::ConvertFrom\<close>.
\<close>

fun std_find :: "'a list \<Rightarrow> 'a \<Rightarrow> nat" where
  "std_find [] v = 0"
| "std_find (x # xs) v = (if x = v then 0 else Suc (std_find xs v))"

definition MyPacketRxCallback :: "uint32_t \<Rightarrow> InetSocketAddress \<Rightarrow> acl_state \<Rightarrow> acl_state" where
  "MyPacketRxCallback packet_size fromAddr s =
     (let src = ipv4 fromAddr
      in if std_find (g_acl s) src \<noteq> length (g_acl s)
         then s\<lparr>g_numAuthorized := g_numAuthorized s + 1,
                log_lines := log_lines s @ [(Authorized, src, packet_size)]\<rparr>
         else s\<lparr>g_numUnauthorized := g_numUnauthorized s + 1,
                log_lines := log_lines s @ [(Unauthorized, src, packet_size)]\<rparr>)"

subsection \<open>Command line and scenario\<close>

definition security_cmd_Parse :: "double option \<Rightarrow> double" where
  "security_cmd_Parse arg_simTime = (case arg_simTime of None \<Rightarrow> 8 | Some t \<Rightarrow> t)"

text \<open>
  The addresses that \<^verbatim>\<open>ipv4.Assign(allDevices)\<close> hands out, read back with
  \<^verbatim>\<open>ifaces.GetAddress(0)\<close>, \<open>(1)\<close> and \<open>(2)\<close>. The address helper belongs to the simulator, so
  the three addresses are a parameter.
\<close>

record security_ifaces =
  serverIp :: Ipv4Address
  clientIp :: Ipv4Address
  rogueIp :: Ipv4Address

record echo_flow =
  echo_source :: Ipv4Address
  MaxPackets :: nat
  Interval :: double
  PacketSize :: uint32_t
  echo_start :: double
  echo_stop :: double

text \<open>
  What \<open>main\<close> builds before the run: the server device (device 0 of \<open>allDevices\<close>), the
  allow-list with the single entry \<open>clientIp\<close>, the echo server, the two echo clients and
  the stop time handed to \<^verbatim>\<open>Simulator::Stop\<close>, which is the literal \<open>3.0\<close>.
\<close>

record security_scenario =
  serverDevices :: "nat list"
  acl :: "Ipv4Address list"
  echoServer :: "double \<times> double"
  echoClients :: "echo_flow list"
  sec_stopTime :: double

definition security_setup :: "security_ifaces \<Rightarrow> security_scenario" where
  "security_setup ifaces =
     \<lparr>serverDevices = [0],
      acl = [] @ [clientIp ifaces],
      echoServer = (1, 3),
      echoClients =
        [\<lparr>echo_source = clientIp ifaces, MaxPackets = 5, Interval = 1, PacketSize = 1024,
          echo_start = 2, echo_stop = 3\<rparr>,
         \<lparr>echo_source = rogueIp ifaces, MaxPackets = 3, Interval = 1, PacketSize = 512,
          echo_start = 5 / 2, echo_stop = 3\<rparr>],
      sec_stopTime = 3\<rparr>"

subsection \<open>Trace firings and the run\<close>

text \<open>
  A firing of \<open>PhyRxEnd\<close>: the device it fires on, the size of the packet and the sender.
\<close>

record phy_rx =
  rx_device :: nat
  rx_packet :: uint32_t
  rx_from :: InetSocketAddress

text \<open>
  The loop of lines 150 to 154 calls \<^verbatim>\<open>dev->TraceConnectWithoutContext("PhyRxEnd", ...)\<close> on
  every server device and discards the result. \<open>has_PhyRxEnd d\<close> is that result: whether
  the device has such a trace source, so that the callback is attached to it.
\<close>

definition attach_inspection :: "(nat \<Rightarrow> bool) \<Rightarrow> nat list \<Rightarrow> nat list" where
  "attach_inspection has_PhyRxEnd devs = filter has_PhyRxEnd devs"

definition security_dispatch :: "nat list \<Rightarrow> acl_state \<Rightarrow> double \<times> phy_rx \<Rightarrow> acl_state" where
  "security_dispatch listeners s ev =
     (if rx_device (snd ev) \<in> set listeners
      then MyPacketRxCallback (rx_packet (snd ev)) (rx_from (snd ev)) s
      else s)"

definition security_initial :: "security_scenario \<Rightarrow> acl_state" where
  "security_initial sc =
     \<lparr>g_acl = acl sc, g_numAuthorized = 0, g_numUnauthorized = 0, log_lines = []\<rparr>"

definition security_run ::
  "(nat \<Rightarrow> bool) \<Rightarrow> security_scenario \<Rightarrow> (double \<times> phy_rx) list \<Rightarrow> acl_state" where
  "security_run has_PhyRxEnd sc queue =
     foldl (security_dispatch (attach_inspection has_PhyRxEnd (serverDevices sc)))
       (security_initial sc) (Simulator_Run (sec_stopTime sc) queue)"

definition security_main ::
  "double option \<Rightarrow> security_ifaces \<Rightarrow> (nat \<Rightarrow> bool) \<Rightarrow> (double \<times> phy_rx) list \<Rightarrow> acl_state" where
  "security_main arg_simTime ifaces has_PhyRxEnd queue =
     (let simTimeSec = security_cmd_Parse arg_simTime; sc = security_setup ifaces
      in security_run has_PhyRxEnd sc queue)"


section \<open>The words of the specification\<close>

text \<open>
  The definitions of this section are not taken from the source. They state, in the
  specification's own terms, what the report is compared with.
\<close>

subsection \<open>Delivery ratio and energy\<close>

definition spec_deliveryRatio :: "nat \<Rightarrow> nat \<Rightarrow> rat" where
  "spec_deliveryRatio received sent = (if sent = 0 then 0 else of_nat received / of_nat sent * 100)"

text \<open>
  The energy-level observations of node \<open>i\<close> in a log, the final one (the initial energy
  when the node has none), and the energy the node has consumed.
\<close>

fun energy_observation :: "nat \<Rightarrow> double \<times> iot_trace \<Rightarrow> double list" where
  "energy_observation i (now, SinkRx j) = []"
| "energy_observation i (now, RemainingEnergy j oldValue newValue) = (if j = i then [newValue] else [])"

definition final_energy :: "double \<Rightarrow> nat \<Rightarrow> (double \<times> iot_trace) list \<Rightarrow> double" where
  "final_energy e0 i observations =
     (let obs = concat (map (energy_observation i) observations)
      in if obs = [] then e0 else last obs)"

definition energy_consumed :: "double \<Rightarrow> nat \<Rightarrow> (double \<times> iot_trace) list \<Rightarrow> double" where
  "energy_consumed e0 i observations = e0 - final_energy e0 i observations"

definition spec_avgEnergyConsumed :: "double \<Rightarrow> nat \<Rightarrow> (double \<times> iot_trace) list \<Rightarrow> double" where
  "spec_avgEnergyConsumed e0 n observations =
     (if n = 0 then 0
      else sum_list (map (\<lambda>i. energy_consumed e0 i observations) [0..<n]) / of_nat n)"

subsection \<open>The traffic schedule\<close>

text \<open>
  Modelled from the spec: the traffic generators of the simulator (sections 4.2 and 4.5).
  A constant-rate flow emits packets only within its window, at most \<open>rate\<close> per second,
  and none when \<open>stop \<le> start\<close>.
\<close>

definition flow_packets :: "uint32_t \<Rightarrow> traffic_flow \<Rightarrow> nat" where
  "flow_packets rate f =
     (if flow_stop f \<le> flow_start f then 0
      else nat \<lfloor>uint32_to_double rate * (flow_stop f - flow_start f)\<rfloor>)"

fun is_SinkRx :: "double \<times> iot_trace \<Rightarrow> bool" where
  "is_SinkRx (now, SinkRx i) = True"
| "is_SinkRx (now, RemainingEnergy i oldValue newValue) = False"

text \<open>
  The firings of a queue that happen on a server device, and those among them whose
  packet carries a given source address.
\<close>

definition from_source :: "Ipv4Address \<Rightarrow> double \<times> phy_rx \<Rightarrow> bool" where
  "from_source a ev = (ipv4 (rx_from (snd ev)) = a)"

definition at_hub :: "security_scenario \<Rightarrow> double \<times> phy_rx \<Rightarrow> bool" where
  "at_hub sc ev = (rx_device (snd ev) \<in> set (serverDevices sc))"

subsection \<open>Access decisions\<close>

definition allow_list_decision :: "Ipv4Address set \<Rightarrow> Ipv4Address \<Rightarrow> decision" where
  "allow_list_decision allow_list a = (if a \<in> allow_list then Authorized else Unauthorized)"

text \<open>
  The firings that reach the inspection callback in a run: those dispatched by the event
  loop on a server device to which the callback is attached.
\<close>

definition hub_received ::
  "(nat \<Rightarrow> bool) \<Rightarrow> security_scenario \<Rightarrow> (double \<times> phy_rx) list \<Rightarrow> (double \<times> phy_rx) list" where
  "hub_received has_PhyRxEnd sc queue =
     filter (\<lambda>ev. rx_device (snd ev) \<in> set (attach_inspection has_PhyRxEnd (serverDevices sc)))
       (Simulator_Run (sec_stopTime sc) queue)"


section \<open>Concrete runs\<close>

text \<open>
  Inputs on which the theorems below are instantiated: the addresses 10.1.1.1, 10.1.1.2 and
  10.1.1.3, a packet of the authorized client and one of the rogue arriving at the server
  device, and a short run of scenario A with two devices.
\<close>

definition example_ifaces :: security_ifaces where
  "example_ifaces = \<lparr>serverIp = 167837953, clientIp = 167837954, rogueIp = 167837955\<rparr>"

definition client_rx :: "double \<Rightarrow> double \<times> phy_rx" where
  "client_rx t =
     (t, \<lparr>rx_device = 0, rx_packet = 1024, rx_from = \<lparr>ipv4 = 167837954, port = 49153\<rparr>\<rparr>)"

definition rogue_rx :: "double \<Rightarrow> double \<times> phy_rx" where
  "rogue_rx t =
     (t, \<lparr>rx_device = 0, rx_packet = 512, rx_from = \<lparr>ipv4 = 167837955, port = 49153\<rparr>\<rparr>)"

text \<open>A firing on the server device whose packet carries the address of the server itself.\<close>

definition server_rx :: "double \<Rightarrow> double \<times> phy_rx" where
  "server_rx t =
     (t, \<lparr>rx_device = 0, rx_packet = 1024, rx_from = \<lparr>ipv4 = 167837953, port = 9000\<rparr>\<rparr>)"

text \<open>The outcome of the trace registrations: every one succeeds, or none does.\<close>

definition always_attached :: "nat \<Rightarrow> bool" where
  "always_attached i = True"

definition never_attached :: "nat \<Rightarrow> bool" where
  "never_attached i = False"

definition example_iot_args :: iot_args where
  "example_iot_args = \<lparr>arg_nIot = Some 2, arg_simulationTime = Some 3\<rparr>"

definition example_iot_queue :: "(double \<times> iot_trace) list" where
  "example_iot_queue =
     [(2, SinkRx 0), (2, SinkRx 1), (1, RemainingEnergy 0 1 (3 / 4)),
      (5 / 2, RemainingEnergy 0 (3 / 4) (1 / 2)), (7 / 2, SinkRx 0)]"

lemmas iot_eval =
  iot_main_def iot_cmd_Parse_def iot_setup_def iot_report_def iot_run_def iot_initial_def
  Simulator_Run_def compute_totalTxPackets_def compute_pdr_def compute_totalEnergyConsumed_def
  compute_avgEnergyConsumed_def RxCallback_def EnergyTrace_def double_to_uint64_def
  truncate_double_def uint32_to_double_def uint64_to_double_def double_sub_def double_mul_def
  example_iot_args_def example_iot_queue_def always_attached_def never_attached_def

lemmas security_eval =
  security_main_def security_run_def security_setup_def security_initial_def Simulator_Run_def
  attach_inspection_def security_dispatch_def MyPacketRxCallback_def security_cmd_Parse_def
  example_ifaces_def client_rx_def rogue_rx_def server_rx_def always_attached_def
  never_attached_def


section \<open>Auxiliary facts\<close>

subsection \<open>Lists, words and the event loop\<close>

lemma length_filter_mono:
  "(\<And>x. x \<in> set xs \<Longrightarrow> P x \<Longrightarrow> Q x) \<Longrightarrow> length (filter P xs) \<le> length (filter Q xs)"
  by (induction xs) auto

lemma unat_of_nat_le: "unat (of_nat n :: 'a::len word) \<le> n"
  by (simp add: unat_of_nat)

lemma length_filter_Simulator_Run:
  "length (filter P (Simulator_Run stop queue)) =
   length (filter (\<lambda>ev. fst ev \<le> stop \<and> P ev) queue)"
proof -
  have "filter P (Simulator_Run stop queue) =
        sort_key fst (filter (\<lambda>ev. fst ev \<le> stop \<and> P ev) queue)"
    by (simp add: Simulator_Run_def filter_sort)
  then show ?thesis by simp
qed

lemma foldl_add_sum_list:
  "foldl (\<lambda>acc i. acc + f i) a xs = a + sum_list (map f xs)" for a :: rat
  by (induction xs arbitrary: a) (simp_all add: add.assoc)

subsection \<open>Rounding\<close>

text \<open>Every integer below \<open>2 ^ 53\<close> in magnitude is a double: rounding leaves it alone.\<close>

lemma round_half_even_of_int: "round_half_even (of_int m) = m"
  by (simp add: round_half_even_def)

lemma exponent_of_of_int:
  assumes "k \<noteq> 0"
  shows "exponent_of (of_int k) = bitlen \<bar>k\<bar> - 1"
proof -
  from assms have "1 \<le> \<bar>k\<bar>" by simp
  then have "(1::rat) \<le> \<bar>of_int k\<bar>"
    by (metis of_int_1_le_iff of_int_abs)
  moreover have "\<lfloor>\<bar>of_int k :: rat\<bar>\<rfloor> = \<bar>k\<bar>"
    by (metis floor_of_int of_int_abs)
  ultimately show ?thesis by (simp add: exponent_of_def)
qed

lemma round_to_double_of_int:
  assumes "\<bar>k\<bar> < 2 ^ 53"
  shows "round_to_double (of_int k) = of_int k"
proof (cases "k = 0")
  case True
  then show ?thesis by (simp add: round_to_double_def)
next
  case False
  define e where "e = bitlen \<bar>k\<bar> - 1"
  from False have pos: "0 < \<bar>k\<bar>" by simp
  from bitlen_bounds [OF pos] have lo: "2 ^ nat e \<le> \<bar>k\<bar>"
    by (simp add: e_def)
  have e0: "0 \<le> e"
    using pos by (simp add: e_def bitlen_alt_def)
  have lt: "(2::int) ^ nat e < 2 ^ 53" using lo assms by linarith
  have "nat e < 53"
    by (rule power_less_imp_less_exp [of "2::int"]) (simp, rule lt)
  then have e52: "e \<le> 52" by simp
  define j where "j = nat (52 - e)"
  have q: "max (exponent_of (of_int k) - 52) (- 1074) = - int j"
    using e0 e52 False by (simp add: exponent_of_of_int e_def [symmetric] j_def)
  have p: "(2::rat) powi (- int j) = 1 / 2 ^ j"
    by (simp add: power_int_minus divide_inverse)
  have "(of_int k :: rat) / 2 powi (- int j) = of_int (k * 2 ^ j)"
    unfolding p by simp
  then have r: "round_half_even ((of_int k :: rat) / 2 powi (- int j)) = k * 2 ^ j"
    by (simp only: round_half_even_of_int)
  have nz: "(of_int k :: rat) \<noteq> 0" using False by simp
  have "round_to_double (of_int k) =
        of_int (round_half_even ((of_int k :: rat) / 2 powi (- int j))) * 2 powi (- int j)"
    unfolding round_to_double_def Let_def q using nz by (simp only: if_False)
  also have "\<dots> = of_int (k * 2 ^ j) * (1 / 2 ^ j)"
    by (subst r, subst p, rule refl)
  also have "\<dots> = of_int k" by simp
  finally show ?thesis .
qed

lemma round_to_double_zero: "round_to_double 0 = 0"
  by (simp add: round_to_double_def)

lemma round_to_double_one: "round_to_double 1 = 1"
  using round_to_double_of_int [of 1] by simp

lemma round_to_double_numeral:
  "(numeral w :: int) < 2 ^ 53 \<Longrightarrow> round_to_double (numeral w) = numeral w"
  using round_to_double_of_int [of "numeral w"] by simp

lemma round_to_double_neg_numeral:
  "(numeral w :: int) < 2 ^ 53 \<Longrightarrow> round_to_double (- numeral w) = - numeral w"
  using round_to_double_of_int [of "- numeral w"] by simp

lemma round_to_double_half: "round_to_double (1 / 2) = 1 / 2"
  by code_simp

lemma round_to_double_neg_half: "round_to_double (- (1 / 2)) = - (1 / 2)"
  by code_simp

lemmas round_eval =
  round_to_double_zero round_to_double_one round_to_double_numeral round_to_double_neg_numeral
  round_to_double_half round_to_double_neg_half


section \<open>Properties of scenario A\<close>

subsection \<open>The run\<close>




lemma compute_totalEnergyConsumed_sum:
  "compute_totalEnergyConsumed e0 srcs n = sum_list (map (\<lambda>i. e0 - srcs ! i) [0..<n])"
  by (simp add: compute_totalEnergyConsumed_def foldl_add_sum_list)

lemma received_foldl:
  "g_packetsReceived (foldl (iot_dispatch att) s evs) =
     g_packetsReceived s + of_nat (length (filter is_SinkRx evs))"
proof (induction evs arbitrary: s)
  case Nil
  then show ?case by simp
next
  case (Cons ev evs)
  show ?case
    by (cases "(att, s, ev)" rule: iot_dispatch.cases)
       (simp_all add: Cons.IH RxCallback_def EnergyTrace_def Let_def)
qed

lemma sources_foldl:
  "i < length (sources s) \<Longrightarrow>
   sources (foldl (iot_dispatch att) s evs) ! i =
     (if concat (map (energy_observation i) evs) = [] then sources s ! i
      else last (concat (map (energy_observation i) evs)))"
proof (induction evs arbitrary: s)
  case Nil
  then show ?case by simp
next
  case (Cons ev evs)
  obtain now tr where ev: "ev = (now, tr)" by (cases ev)
  show ?case
  proof (cases tr)
    case (SinkRx j)
    then show ?thesis using Cons.prems ev by (simp add: Cons.IH RxCallback_def)
  next
    case (RemainingEnergy j oldValue newValue)
    then show ?thesis using Cons.prems ev
      by (simp add: Cons.IH EnergyTrace_def Let_def)
  qed
qed

lemma sources_iot_run:
  "i < unat (nIot c) \<Longrightarrow>
   sources (iot_run att (iot_setup c) queue) ! i =
     final_energy (initialEnergyJ c) i (Simulator_Run (simulationTime c) queue)"
  by (simp add: iot_run_def iot_initial_def iot_setup_def sources_foldl final_energy_def Let_def)

lemma received_iot_run:
  "g_packetsReceived (iot_run att (iot_setup c) queue) =
     of_nat (length (filter is_SinkRx (Simulator_Run (simulationTime c) queue)))"
  by (simp add: iot_run_def iot_initial_def iot_setup_def received_foldl)

lemma report_without_log:
  "g_packetsReceived s = g_packetsReceived s' \<Longrightarrow> sources s = sources s' \<Longrightarrow>
   g_packetsReceived (foldl (iot_dispatch att) s evs) =
     g_packetsReceived (foldl (iot_dispatch att') s' evs) \<and>
   sources (foldl (iot_dispatch att) s evs) = sources (foldl (iot_dispatch att') s' evs)"
proof (induction evs arbitrary: s s')
  case Nil
  then show ?case by simp
next
  case (Cons ev evs)
  obtain now tr where ev: "ev = (now, tr)" by (cases ev)
  have "g_packetsReceived (iot_dispatch att s ev) = g_packetsReceived (iot_dispatch att' s' ev) \<and>
        sources (iot_dispatch att s ev) = sources (iot_dispatch att' s' ev)"
    using Cons.prems ev by (cases tr) (simp_all add: RxCallback_def EnergyTrace_def Let_def)
  then show ?case using Cons.IH by simp
qed

lemma iot_main_Inr:
  "iot_main args att queue = Inr r \<Longrightarrow>
   \<exists>tx. compute_totalTxPackets (iot_cmd_Parse args) = Inr tx \<and>
     r = \<lparr>totalTxPackets = tx,
          packetsReceived = g_packetsReceived (iot_run att (iot_setup (iot_cmd_Parse args)) queue),
          pdr = compute_pdr (g_packetsReceived (iot_run att (iot_setup (iot_cmd_Parse args)) queue)) tx,
          avgEnergyConsumed = compute_avgEnergyConsumed (nIot (iot_cmd_Parse args))
            (compute_totalEnergyConsumed (initialEnergyJ (iot_cmd_Parse args))
               (sources (iot_run att (iot_setup (iot_cmd_Parse args)) queue))
               (unat (nIot (iot_cmd_Parse args))))\<rparr>"
  by (auto simp: iot_main_def iot_report_def Let_def iot_setup_def split: sum.splits)

lemma compute_pdr_spec:
  "compute_pdr received totalTx = spec_deliveryRatio (unat received) (unat totalTx)"
  by (simp add: compute_pdr_def spec_deliveryRatio_def uint64_to_double_def
      word_greater_zero_iff unat_eq_0)

lemma spec_deliveryRatio_bounds:
  "0 \<le> spec_deliveryRatio received sent \<and>
   (received \<le> sent \<longrightarrow> spec_deliveryRatio received sent \<le> 100)"
proof (cases "sent = 0")
  case True
  then show ?thesis by (simp add: spec_deliveryRatio_def)
next
  case False
  then have pos: "(0::rat) < of_nat sent" by simp
  have "(of_nat received :: rat) / of_nat sent \<le> 1" if "received \<le> sent"
    using that pos by (simp add: divide_le_eq_1)
  then have "(of_nat received :: rat) / of_nat sent * 100 \<le> 1 * 100" if "received \<le> sent"
    using that by (intro mult_right_mono) simp_all
  then have "received \<le> sent \<longrightarrow> (of_nat received :: rat) / of_nat sent * 100 \<le> 100"
    by simp
  then show ?thesis using False by (simp add: spec_deliveryRatio_def)
qed

subsection \<open>Delivery ratio\<close>

text \<open>
  Claim C1, as the specification states it: in every run with a positive sent count the
  delivery ratio lies between 0 and 100. The program divides the received count by the
  analytic sent count and does not clamp the quotient. With one device and a duration of
  2 s the sent count is 1; three firings of the sink trace before the stop time give a
  received count of 3 and a reported ratio of 300.
\<close>

theorem delivery_ratio_exceeds_100:
  "iot_main \<lparr>arg_nIot = Some 1, arg_simulationTime = Some 2\<rparr> always_attached
     [(3 / 2, SinkRx 0), (3 / 2, SinkRx 0), (3 / 2, SinkRx 0)] =
     Inr \<lparr>totalTxPackets = 1, packetsReceived = 3, pdr = 300, avgEnergyConsumed = 0\<rparr>"
  by (simp add: iot_eval round_eval)

text \<open>
  Claim C1, amended. In every run whose report is defined, the received count is the
  number of sink firings that the event loop dispatched, the reported delivery ratio is
  received / sent \<times> 100 when the analytically computed sent count is positive and 0 when
  it is 0, and the ratio is never negative. It is at most 100 whenever the received count
  does not exceed the sent count; the program itself does not bound the received count
  by the sent count.
\<close>

theorem delivery_ratio:
  assumes run: "iot_main args att queue = Inr r"
  shows "packetsReceived r =
           of_nat (length (filter is_SinkRx
                     (Simulator_Run (simulationTime (iot_cmd_Parse args)) queue))) \<and>
         pdr r = (if unat (totalTxPackets r) = 0 then 0
                  else of_nat (unat (packetsReceived r)) / of_nat (unat (totalTxPackets r)) * 100) \<and>
         0 \<le> pdr r \<and>
         (unat (packetsReceived r) \<le> unat (totalTxPackets r) \<longrightarrow> pdr r \<le> 100)"
proof -
  define c where "c = iot_cmd_Parse args"
  from run obtain tx where sent: "totalTxPackets r = tx"
    and received: "packetsReceived r = g_packetsReceived (iot_run att (iot_setup c) queue)"
    and ratio: "pdr r = compute_pdr (g_packetsReceived (iot_run att (iot_setup c) queue)) tx"
    by (auto dest!: iot_main_Inr simp: c_def)
  have rx: "packetsReceived r =
      of_nat (length (filter is_SinkRx (Simulator_Run (simulationTime c) queue)))"
    unfolding received by (rule received_iot_run)
  have p: "pdr r = spec_deliveryRatio (unat (packetsReceived r)) (unat (totalTxPackets r))"
    unfolding ratio received sent by (rule compute_pdr_spec)
  have f: "pdr r = (if unat (totalTxPackets r) = 0 then 0
                  else of_nat (unat (packetsReceived r)) / of_nat (unat (totalTxPackets r)) * 100)"
    unfolding p by (simp add: spec_deliveryRatio_def)
  have lower: "0 \<le> pdr r"
    unfolding p using spec_deliveryRatio_bounds by blast
  have upper: "pdr r \<le> 100" if "unat (packetsReceived r) \<le> unat (totalTxPackets r)"
    unfolding p using spec_deliveryRatio_bounds that by blast
  show ?thesis using rx f lower upper unfolding c_def by blast
qed

theorem delivery_ratio_witness:
  "iot_main example_iot_args always_attached example_iot_queue =
     Inr \<lparr>totalTxPackets = 4, packetsReceived = 2, pdr = 50, avgEnergyConsumed = 1 / 4\<rparr> \<and>
   unat (packetsReceived
           \<lparr>totalTxPackets = 4, packetsReceived = 2, pdr = 50, avgEnergyConsumed = 1 / 4\<rparr>)
     \<le> unat (totalTxPackets
           \<lparr>totalTxPackets = 4, packetsReceived = 2, pdr = 50, avgEnergyConsumed = 1 / 4\<rparr>) \<and>
   pdr \<lparr>totalTxPackets = 4, packetsReceived = 2, pdr = 50, avgEnergyConsumed = 1 / 4\<rparr>
     = of_nat (unat (2 :: uint64_t)) / of_nat (unat (4 :: uint64_t)) * 100 \<and>
   pdr \<lparr>totalTxPackets = 4, packetsReceived = 2, pdr = 50, avgEnergyConsumed = 1 / 4\<rparr> \<le> 100"
proof -
  have h: "iot_main example_iot_args always_attached example_iot_queue =
     Inr \<lparr>totalTxPackets = 4, packetsReceived = 2, pdr = 50, avgEnergyConsumed = 1 / 4\<rparr>"
    by (simp add: iot_eval round_eval upt_rec)
  from delivery_ratio [OF h] h show ?thesis by simp
qed

subsection \<open>Total packets sent\<close>



subsection \<open>Energy\<close>

text \<open>
  Claim C5. The energy a device has consumed is the initial energy minus the final
  remaining-energy reading of its source, where the reading of a source that never changed
  is the initial energy. The reported average is the sum of this quantity over all devices
  divided by the number of devices, and 0 when there is no device.
\<close>

theorem average_energy_consumed:
  assumes "iot_main args att queue = Inr r"
  shows "avgEnergyConsumed r =
           spec_avgEnergyConsumed (initialEnergyJ (iot_cmd_Parse args))
             (unat (nIot (iot_cmd_Parse args)))
             (Simulator_Run (simulationTime (iot_cmd_Parse args)) queue)"
proof -
  define c where "c = iot_cmd_Parse args"
  define n where "n = unat (nIot c)"
  define D where "D = Simulator_Run (simulationTime c) queue"
  from assms have r: "avgEnergyConsumed r = compute_avgEnergyConsumed (nIot c)
      (compute_totalEnergyConsumed (initialEnergyJ c)
         (sources (iot_run att (iot_setup c) queue)) n)"
    by (auto dest!: iot_main_Inr simp: c_def n_def)
  have eq: "map (\<lambda>i. initialEnergyJ c - sources (iot_run att (iot_setup c) queue) ! i) [0..<n] =
            map (\<lambda>i. energy_consumed (initialEnergyJ c) i D) [0..<n]"
    by (rule map_cong) (simp_all add: sources_iot_run energy_consumed_def n_def D_def)
  have tot: "compute_totalEnergyConsumed (initialEnergyJ c)
               (sources (iot_run att (iot_setup c) queue)) n =
             sum_list (map (\<lambda>i. energy_consumed (initialEnergyJ c) i D) [0..<n])"
    unfolding compute_totalEnergyConsumed_sum eq ..
  have pos: "0 < nIot c \<longleftrightarrow> n \<noteq> 0"
    by (simp add: n_def word_greater_zero_iff unat_eq_0)
  show ?thesis
    unfolding r tot
    by (simp add: compute_avgEnergyConsumed_def spec_avgEnergyConsumed_def pos
        uint32_to_double_def c_def [symmetric] n_def [symmetric] D_def [symmetric])
qed

theorem average_energy_consumed_witness:
  "iot_main example_iot_args always_attached example_iot_queue =
     Inr \<lparr>totalTxPackets = 4, packetsReceived = 2, pdr = 50, avgEnergyConsumed = 1 / 4\<rparr> \<and>
   energy_consumed 1 0 (Simulator_Run 3 example_iot_queue) = 1 / 2 \<and>
   energy_consumed 1 1 (Simulator_Run 3 example_iot_queue) = 0 \<and>
   spec_avgEnergyConsumed (initialEnergyJ (iot_cmd_Parse example_iot_args))
     (unat (nIot (iot_cmd_Parse example_iot_args)))
     (Simulator_Run (simulationTime (iot_cmd_Parse example_iot_args)) example_iot_queue) = 1 / 4"
proof -
  have h: "iot_main example_iot_args always_attached example_iot_queue =
     Inr \<lparr>totalTxPackets = 4, packetsReceived = 2, pdr = 50, avgEnergyConsumed = 1 / 4\<rparr>"
    by (simp add: iot_eval round_eval upt_rec)
  have e0: "energy_consumed 1 0 (Simulator_Run 3 example_iot_queue) = 1 / 2"
    by (simp add: energy_consumed_def final_energy_def Simulator_Run_def example_iot_queue_def)
  have e1: "energy_consumed 1 1 (Simulator_Run 3 example_iot_queue) = 0"
    by (simp add: energy_consumed_def final_energy_def Simulator_Run_def example_iot_queue_def)
  from average_energy_consumed [OF h] h e0 e1 show ?thesis
    by (simp add: iot_cmd_Parse_def example_iot_args_def round_eval)
qed

subsection \<open>Empty windows\<close>

text \<open>
  Claim C9. A flow whose stop time is not after its start time sends nothing and should
  add 0 to the total sent. The program computes the total with the signed window length
  \<open>simulationTime - 1\<close> and converts the product to \<^verbatim>\<open>uint64_t\<close>. With a duration of exactly
  1 s the total is 0. With the default 20 devices and a duration of 0.5 s every flow has an
  empty window, the product is \<open>-10\<close>, and its conversion to an unsigned integer is
  undefined: the report is not the 0 the claim promises.
\<close>

theorem negative_window_total_sent_undefined:
  "list_all (\<lambda>f. flow_stop f \<le> flow_start f \<and> flow_packets 1 f = 0)
     (clientApps (iot_setup (iot_cmd_Parse \<lparr>arg_nIot = None, arg_simulationTime = Some (1 / 2)\<rparr>))) \<and>
   truncate_double (uint32_to_double (20 * 1) * (1 / 2 - 1)) = - 10 \<and>
   compute_totalTxPackets (iot_cmd_Parse \<lparr>arg_nIot = None, arg_simulationTime = Some (1 / 2)\<rparr>)
     = Inl UndefinedConversion \<and>
   iot_main \<lparr>arg_nIot = None, arg_simulationTime = Some (1 / 2)\<rparr> always_attached []
     = Inl UndefinedConversion \<and>
   map_sum id totalTxPackets
     (iot_main \<lparr>arg_nIot = None, arg_simulationTime = Some 1\<rparr> always_attached []) = Inr 0"
proof -
  have 1: "list_all (\<lambda>f. flow_stop f \<le> flow_start f \<and> flow_packets 1 f = 0)
     (clientApps (iot_setup (iot_cmd_Parse \<lparr>arg_nIot = None, arg_simulationTime = Some (1 / 2)\<rparr>)))"
    by (simp add: list_all_iff iot_setup_def iot_cmd_Parse_def flow_packets_def round_eval)
  have 2: "truncate_double (uint32_to_double (20 * 1) * (1 / 2 - 1)) = - 10"
    by (simp add: truncate_double_def uint32_to_double_def)
  have 3: "compute_totalTxPackets
             (iot_cmd_Parse \<lparr>arg_nIot = None, arg_simulationTime = Some (1 / 2)\<rparr>)
           = Inl UndefinedConversion"
    by (simp add: iot_eval round_eval)
  have 4: "iot_main \<lparr>arg_nIot = None, arg_simulationTime = Some (1 / 2)\<rparr> always_attached []
           = Inl UndefinedConversion"
    by (simp add: iot_main_def iot_report_def 3)
  have 5: "map_sum id totalTxPackets
     (iot_main \<lparr>arg_nIot = None, arg_simulationTime = Some 1\<rparr> always_attached []) = Inr 0"
    by (simp add: iot_eval round_eval)
  from 1 2 3 4 5 show ?thesis by blast
qed

section \<open>Properties of scenario B\<close>

subsection \<open>The callback and the run\<close>

lemma std_find_end: "std_find xs v \<noteq> length xs \<longleftrightarrow> v \<in> set xs"
proof (induction xs)
  case Nil
  then show ?case by simp
next
  case (Cons x xs)
  then show ?case by auto
qed

lemma MyPacketRxCallback_eq:
  "MyPacketRxCallback n a s =
     (if ipv4 a \<in> set (g_acl s)
      then s\<lparr>g_numAuthorized := g_numAuthorized s + 1,
             log_lines := log_lines s @ [(Authorized, ipv4 a, n)]\<rparr>
      else s\<lparr>g_numUnauthorized := g_numUnauthorized s + 1,
             log_lines := log_lines s @ [(Unauthorized, ipv4 a, n)]\<rparr>)"
  by (simp add: MyPacketRxCallback_def Let_def std_find_end)

lemma foldl_security_dispatch:
  "foldl (security_dispatch ls) s evs =
   foldl (\<lambda>s ev. MyPacketRxCallback (rx_packet (snd ev)) (rx_from (snd ev)) s) s
     (filter (\<lambda>ev. rx_device (snd ev) \<in> set ls) evs)"
  by (induction evs arbitrary: s) (simp_all add: security_dispatch_def)

lemma run_callbacks:
  "foldl (\<lambda>s ev. MyPacketRxCallback (rx_packet (snd ev)) (rx_from (snd ev)) s) s evs =
   s\<lparr>g_numAuthorized := g_numAuthorized s +
        of_nat (length (filter (\<lambda>ev. ipv4 (rx_from (snd ev)) \<in> set (g_acl s)) evs)),
     g_numUnauthorized := g_numUnauthorized s +
        of_nat (length (filter (\<lambda>ev. ipv4 (rx_from (snd ev)) \<notin> set (g_acl s)) evs)),
     log_lines := log_lines s @
        map (\<lambda>ev. (allow_list_decision (set (g_acl s)) (ipv4 (rx_from (snd ev))),
                   ipv4 (rx_from (snd ev)), rx_packet (snd ev))) evs\<rparr>"
proof (induction evs arbitrary: s)
  case Nil
  then show ?case by simp
next
  case (Cons ev evs)
  show ?case
    apply (simp only: foldl_Cons Cons.IH)
    apply (simp add: MyPacketRxCallback_eq allow_list_decision_def)
    done
qed

lemma security_main_eq:
  "security_main a ifaces h queue =
   (let evs = hub_received h (security_setup ifaces) queue;
        s = security_initial (security_setup ifaces)
    in s\<lparr>g_numAuthorized :=
            of_nat (length (filter (\<lambda>ev. ipv4 (rx_from (snd ev)) \<in> set (g_acl s)) evs)),
          g_numUnauthorized :=
            of_nat (length (filter (\<lambda>ev. ipv4 (rx_from (snd ev)) \<notin> set (g_acl s)) evs)),
          log_lines :=
            map (\<lambda>ev. (allow_list_decision (set (g_acl s)) (ipv4 (rx_from (snd ev))),
                       ipv4 (rx_from (snd ev)), rx_packet (snd ev))) evs\<rparr>)"
  by (simp add: security_main_def security_run_def foldl_security_dispatch run_callbacks
      hub_received_def Let_def security_initial_def)

lemma length_filter_hub_received:
  "length (filter P (hub_received h sc queue)) \<le> length (filter P (filter (at_hub sc) queue))"
proof -
  have "length (filter P (hub_received h sc queue)) =
        length (filter (\<lambda>ev. fst ev \<le> sec_stopTime sc \<and>
                  rx_device (snd ev) \<in> set (attach_inspection h (serverDevices sc)) \<and> P ev) queue)"
    by (simp add: hub_received_def length_filter_Simulator_Run)
  also have "\<dots> \<le> length (filter (\<lambda>ev. at_hub sc ev \<and> P ev) queue)"
    by (rule length_filter_mono) (auto simp: at_hub_def attach_inspection_def)
  finally show ?thesis by simp
qed

subsection \<open>Classification\<close>

text \<open>
  Claim C3. For every received packet the inspection callback records the decision
  Authorized exactly when the source address of the packet is a member of the allow-list,
  and Unauthorized otherwise, and counts it accordingly. The callback leaves the allow-list
  unchanged, and the decision depends on the allow-list and the source address only: two
  states with the same allow-list give the same decision for the same packet.
\<close>

theorem inspector_classifies_by_allow_list:
  "g_acl (MyPacketRxCallback n a s) = g_acl s \<and>
   log_lines (MyPacketRxCallback n a s) =
     log_lines s @ [(allow_list_decision (set (g_acl s)) (ipv4 a), ipv4 a, n)] \<and>
   g_numAuthorized (MyPacketRxCallback n a s) =
     (if ipv4 a \<in> set (g_acl s) then g_numAuthorized s + 1 else g_numAuthorized s) \<and>
   g_numUnauthorized (MyPacketRxCallback n a s) =
     (if ipv4 a \<in> set (g_acl s) then g_numUnauthorized s else g_numUnauthorized s + 1) \<and>
   (\<forall>s'. g_acl s' = g_acl s \<longrightarrow>
      last (log_lines (MyPacketRxCallback n a s')) = last (log_lines (MyPacketRxCallback n a s)))"
  by (simp add: MyPacketRxCallback_eq allow_list_decision_def)

theorem inspector_classifies_by_allow_list_witness:
  "g_acl \<lparr>g_acl = [167837954], g_numAuthorized = 7, g_numUnauthorized = 1,
          log_lines = [(Authorized, 167837954, 1024)]\<rparr> =
   g_acl \<lparr>g_acl = [167837954], g_numAuthorized = 0, g_numUnauthorized = 0, log_lines = []\<rparr> \<and>
   last (log_lines (MyPacketRxCallback 512 \<lparr>ipv4 = 167837955, port = 49153\<rparr>
          \<lparr>g_acl = [167837954], g_numAuthorized = 7, g_numUnauthorized = 1,
           log_lines = [(Authorized, 167837954, 1024)]\<rparr>)) =
   last (log_lines (MyPacketRxCallback 512 \<lparr>ipv4 = 167837955, port = 49153\<rparr>
          \<lparr>g_acl = [167837954], g_numAuthorized = 0, g_numUnauthorized = 0, log_lines = []\<rparr>)) \<and>
   log_lines (MyPacketRxCallback 512 \<lparr>ipv4 = 167837955, port = 49153\<rparr>
          \<lparr>g_acl = [167837954], g_numAuthorized = 0, g_numUnauthorized = 0, log_lines = []\<rparr>) =
     [(Unauthorized, 167837955, 512)] \<and>
   log_lines (MyPacketRxCallback 1024 \<lparr>ipv4 = 167837954, port = 49153\<rparr>
          \<lparr>g_acl = [167837954], g_numAuthorized = 0, g_numUnauthorized = 0, log_lines = []\<rparr>) =
     [(Authorized, 167837954, 1024)]"
proof -
  have h: "g_acl \<lparr>g_acl = [167837954], g_numAuthorized = 7, g_numUnauthorized = 1,
          log_lines = [(Authorized, 167837954, 1024)]\<rparr> =
   g_acl \<lparr>g_acl = [167837954], g_numAuthorized = 0, g_numUnauthorized = 0, log_lines = []\<rparr>"
    by simp
  from inspector_classifies_by_allow_list [of 512 "\<lparr>ipv4 = 167837955, port = 49153\<rparr>"
      "\<lparr>g_acl = [167837954], g_numAuthorized = 0, g_numUnauthorized = 0, log_lines = []\<rparr>"]
    inspector_classifies_by_allow_list [of 1024 "\<lparr>ipv4 = 167837954, port = 49153\<rparr>"
      "\<lparr>g_acl = [167837954], g_numAuthorized = 0, g_numUnauthorized = 0, log_lines = []\<rparr>"]
    h
  show ?thesis by (simp add: allow_list_decision_def)
qed

subsection \<open>Counters\<close>

text \<open>
  Claim C4. In every run the authorized count plus the unauthorized count equals the
  number of packets received at the hub, that is the number of firings that reach the
  inspection callback; with the callback attached to every server device these are all
  the firings that the event loop dispatches on a server device. Every call of the callback adds one to exactly one of the two
  counters and leaves the other as it is, and nothing else in the program writes them.
  The counters are 32-bit: the equation holds in 32-bit arithmetic for every run, and
  between the numbers themselves for every run with fewer than \<open>2 ^ 32\<close> packets.
\<close>

theorem authorized_plus_unauthorized_is_received:
  "g_numAuthorized (security_main a ifaces h queue) +
   g_numUnauthorized (security_main a ifaces h queue)
     = of_nat (length (hub_received h (security_setup ifaces) queue)) \<and>
   (length (hub_received h (security_setup ifaces) queue) < 2 ^ 32 \<longrightarrow>
      unat (g_numAuthorized (security_main a ifaces h queue)) +
      unat (g_numUnauthorized (security_main a ifaces h queue))
        = length (hub_received h (security_setup ifaces) queue)) \<and>
   (attach_inspection h (serverDevices (security_setup ifaces))
        = serverDevices (security_setup ifaces) \<longrightarrow>
      hub_received h (security_setup ifaces) queue =
        filter (at_hub (security_setup ifaces))
          (Simulator_Run (sec_stopTime (security_setup ifaces)) queue)) \<and>
   (\<forall>n fromAddr s.
      (g_numAuthorized (MyPacketRxCallback n fromAddr s) = g_numAuthorized s + 1 \<and>
       g_numUnauthorized (MyPacketRxCallback n fromAddr s) = g_numUnauthorized s) \<or>
      (g_numAuthorized (MyPacketRxCallback n fromAddr s) = g_numAuthorized s \<and>
       g_numUnauthorized (MyPacketRxCallback n fromAddr s) = g_numUnauthorized s + 1))"
proof -
  define evs where "evs = hub_received h (security_setup ifaces) queue"
  define A where "A = set (g_acl (security_initial (security_setup ifaces)))"
  define k1 where "k1 = length (filter (\<lambda>ev. ipv4 (rx_from (snd ev)) \<in> A) evs)"
  define k2 where "k2 = length (filter (\<lambda>ev. ipv4 (rx_from (snd ev)) \<notin> A) evs)"
  have sum: "k1 + k2 = length evs"
    unfolding k1_def k2_def by (rule sum_length_filter_compl)
  have a: "g_numAuthorized (security_main a ifaces h queue) = of_nat k1"
    by (simp add: security_main_eq Let_def k1_def evs_def A_def)
  have u: "g_numUnauthorized (security_main a ifaces h queue) = of_nat k2"
    by (simp add: security_main_eq Let_def k2_def evs_def A_def)
  have 1: "g_numAuthorized (security_main a ifaces h queue) +
           g_numUnauthorized (security_main a ifaces h queue) = of_nat (length evs)"
    unfolding a u using sum by (metis of_nat_add)
  have 2: "unat (g_numAuthorized (security_main a ifaces h queue)) +
           unat (g_numUnauthorized (security_main a ifaces h queue)) = length evs"
    if "length evs < 2 ^ 32"
  proof -
    have "k1 < 2 ^ 32" "k2 < 2 ^ 32" using that sum by linarith+
    then have "unat (of_nat k1 :: 32 word) = k1" "unat (of_nat k2 :: 32 word) = k2"
      by (simp_all add: unat_of_nat)
    then show ?thesis unfolding a u using sum by simp
  qed
  have 3: "(g_numAuthorized (MyPacketRxCallback n fromAddr s) = g_numAuthorized s + 1 \<and>
            g_numUnauthorized (MyPacketRxCallback n fromAddr s) = g_numUnauthorized s) \<or>
           (g_numAuthorized (MyPacketRxCallback n fromAddr s) = g_numAuthorized s \<and>
            g_numUnauthorized (MyPacketRxCallback n fromAddr s) = g_numUnauthorized s + 1)"
    for n fromAddr s
    by (simp add: MyPacketRxCallback_eq)
  have 4: "hub_received h (security_setup ifaces) queue =
        filter (at_hub (security_setup ifaces))
          (Simulator_Run (sec_stopTime (security_setup ifaces)) queue)"
    if "attach_inspection h (serverDevices (security_setup ifaces))
          = serverDevices (security_setup ifaces)"
    unfolding hub_received_def that by (simp add: at_hub_def [abs_def])
  show ?thesis using 1 2 3 4 unfolding evs_def by blast
qed

theorem authorized_plus_unauthorized_is_received_witness:
  "attach_inspection always_attached (serverDevices (security_setup example_ifaces))
     = serverDevices (security_setup example_ifaces) \<and>
   length (hub_received always_attached (security_setup example_ifaces)
             [client_rx (21 / 10), rogue_rx (13 / 5), client_rx (31 / 10)]) < 2 ^ 32 \<and>
   hub_received always_attached (security_setup example_ifaces)
             [client_rx (21 / 10), rogue_rx (13 / 5), client_rx (31 / 10)]
     = [client_rx (21 / 10), rogue_rx (13 / 5)] \<and>
   unat (g_numAuthorized (security_main None example_ifaces always_attached
           [client_rx (21 / 10), rogue_rx (13 / 5), client_rx (31 / 10)])) +
   unat (g_numUnauthorized (security_main None example_ifaces always_attached
           [client_rx (21 / 10), rogue_rx (13 / 5), client_rx (31 / 10)])) = 2"
proof -
  have r: "hub_received always_attached (security_setup example_ifaces)
             [client_rx (21 / 10), rogue_rx (13 / 5), client_rx (31 / 10)]
     = [client_rx (21 / 10), rogue_rx (13 / 5)]"
    by (simp add: hub_received_def security_eval)
  have h: "length (hub_received always_attached (security_setup example_ifaces)
             [client_rx (21 / 10), rogue_rx (13 / 5), client_rx (31 / 10)]) < 2 ^ 32"
    unfolding r by simp
  from authorized_plus_unauthorized_is_received [of None example_ifaces always_attached
      "[client_rx (21 / 10), rogue_rx (13 / 5), client_rx (31 / 10)]"] h
  have "unat (g_numAuthorized (security_main None example_ifaces always_attached
           [client_rx (21 / 10), rogue_rx (13 / 5), client_rx (31 / 10)])) +
        unat (g_numUnauthorized (security_main None example_ifaces always_attached
           [client_rx (21 / 10), rogue_rx (13 / 5), client_rx (31 / 10)])) =
        length (hub_received always_attached (security_setup example_ifaces)
             [client_rx (21 / 10), rogue_rx (13 / 5), client_rx (31 / 10)])"
    by blast
  moreover have "attach_inspection always_attached (serverDevices (security_setup example_ifaces))
     = serverDevices (security_setup example_ifaces)"
    by (simp add: attach_inspection_def always_attached_def)
  ultimately show ?thesis using r h by simp
qed

subsection \<open>The access-control scenario\<close>

text \<open>
  Claim C6, as the specification states it: in the access-control scenario the final
  authorized count is at most 5, the final unauthorized count is at most 3, and every
  observation classified Unauthorized carries the address of the rogue. The program
  counts every firing that reaches the callback and compares its address with the
  allow-list only. Six firings with the address of the client give an authorized count of
  6, and a firing with the address 10.1.1.1 of the server is logged as Unauthorized
  although it is not the address 10.1.1.3 of the rogue.
\<close>

theorem access_control_counts_are_unbounded:
  "g_numAuthorized (security_main None example_ifaces always_attached
     [client_rx 2, client_rx (21 / 10), client_rx (22 / 10), client_rx (23 / 10),
      client_rx (24 / 10), client_rx (25 / 10)]) = 6 \<and>
   security_main None example_ifaces always_attached [server_rx (5 / 2)] =
     \<lparr>g_acl = [167837954], g_numAuthorized = 0, g_numUnauthorized = 1,
      log_lines = [(Unauthorized, 167837953, 1024)]\<rparr> \<and>
   rogueIp example_ifaces = 167837955"
  by (simp add: security_eval)

text \<open>
  Claim C6, amended. In the access-control scenario the allow-list is the single address
  of the authorized client. The final authorized count is at most the number of firings
  at the hub whose packet carries the address of the client, the final unauthorized count
  is at most the number of firings at the hub whose packet carries any other address,
  every line logged as Authorized carries the address of the client, and every line
  logged as Unauthorized carries another address, never that of the client. The program
  itself puts no bound of 5 or 3 on the counts and does not tie an unauthorized packet to
  the rogue.
\<close>

theorem access_control_scenario_counts:
  "unat (g_numAuthorized (security_main a ifaces h queue)) \<le>
     length (filter (from_source (clientIp ifaces))
               (filter (at_hub (security_setup ifaces)) queue)) \<and>
   unat (g_numUnauthorized (security_main a ifaces h queue)) \<le>
     length (filter (\<lambda>ev. \<not> from_source (clientIp ifaces) ev)
               (filter (at_hub (security_setup ifaces)) queue)) \<and>
   (\<forall>line \<in> set (log_lines (security_main a ifaces h queue)).
      (fst line = Authorized \<longrightarrow> fst (snd line) = clientIp ifaces) \<and>
      (fst line = Unauthorized \<longrightarrow> fst (snd line) \<noteq> clientIp ifaces))"
proof -
  define sc where "sc = security_setup ifaces"
  define evs where "evs = hub_received h sc queue"
  have acl: "set (g_acl (security_initial sc)) = {clientIp ifaces}"
    by (simp add: sc_def security_initial_def security_setup_def)
  have "unat (g_numAuthorized (security_main a ifaces h queue)) \<le>
        length (filter (from_source (clientIp ifaces)) evs)"
    using unat_of_nat_le [where 'a = 32,
        of "length (filter (\<lambda>ev. ipv4 (rx_from (snd ev)) \<in> {clientIp ifaces}) evs)"]
    by (simp add: security_main_eq Let_def acl [unfolded sc_def] evs_def sc_def
        from_source_def [abs_def])
  also have "\<dots> \<le> length (filter (from_source (clientIp ifaces)) (filter (at_hub sc) queue))"
    unfolding evs_def by (rule length_filter_hub_received)
  finally have 1: "unat (g_numAuthorized (security_main a ifaces h queue)) \<le>
     length (filter (from_source (clientIp ifaces)) (filter (at_hub sc) queue))" .
  have "unat (g_numUnauthorized (security_main a ifaces h queue)) \<le>
        length (filter (\<lambda>ev. \<not> from_source (clientIp ifaces) ev) evs)"
    using unat_of_nat_le [where 'a = 32,
        of "length (filter (\<lambda>ev. ipv4 (rx_from (snd ev)) \<notin> {clientIp ifaces}) evs)"]
    by (simp add: security_main_eq Let_def acl [unfolded sc_def] evs_def sc_def
        from_source_def [abs_def])
  also have "\<dots> \<le> length (filter (\<lambda>ev. \<not> from_source (clientIp ifaces) ev)
                         (filter (at_hub sc) queue))"
    unfolding evs_def by (rule length_filter_hub_received)
  finally have 2: "unat (g_numUnauthorized (security_main a ifaces h queue)) \<le>
     length (filter (\<lambda>ev. \<not> from_source (clientIp ifaces) ev) (filter (at_hub sc) queue))" .
  have 3: "(fst line = Authorized \<longrightarrow> fst (snd line) = clientIp ifaces) \<and>
           (fst line = Unauthorized \<longrightarrow> fst (snd line) \<noteq> clientIp ifaces)"
    if "line \<in> set (log_lines (security_main a ifaces h queue))" for line
  proof -
    from that obtain src n where
      line: "line = (allow_list_decision {clientIp ifaces} src, src, n)"
      by (auto simp: security_main_eq Let_def acl [unfolded sc_def] evs_def sc_def)
    show ?thesis unfolding line by (simp add: allow_list_decision_def)
  qed
  from 1 2 3 show ?thesis unfolding sc_def by blast
qed

theorem access_control_scenario_counts_witness:
  "security_main None example_ifaces always_attached
        [client_rx (21 / 10), rogue_rx (13 / 5), client_rx (31 / 10)] =
     \<lparr>g_acl = [167837954], g_numAuthorized = 1, g_numUnauthorized = 1,
      log_lines = [(Authorized, 167837954, 1024), (Unauthorized, 167837955, 512)]\<rparr> \<and>
   (Unauthorized, 167837955, 512) \<in> set (log_lines (security_main None example_ifaces
        always_attached [client_rx (21 / 10), rogue_rx (13 / 5), client_rx (31 / 10)])) \<and>
   fst (Unauthorized, 167837955 :: Ipv4Address, 512 :: uint32_t) = Unauthorized \<and>
   fst (snd (Unauthorized, 167837955 :: Ipv4Address, 512 :: uint32_t)) \<noteq> clientIp example_ifaces \<and>
   (Authorized, 167837954, 1024) \<in> set (log_lines (security_main None example_ifaces
        always_attached [client_rx (21 / 10), rogue_rx (13 / 5), client_rx (31 / 10)])) \<and>
   fst (snd (Authorized, 167837954 :: Ipv4Address, 1024 :: uint32_t)) = clientIp example_ifaces \<and>
   length (filter (from_source (clientIp example_ifaces))
             (filter (at_hub (security_setup example_ifaces))
                [client_rx (21 / 10), rogue_rx (13 / 5), client_rx (31 / 10)])) = 2 \<and>
   unat (g_numAuthorized (security_main None example_ifaces always_attached
        [client_rx (21 / 10), rogue_rx (13 / 5), client_rx (31 / 10)])) \<le> 2"
proof -
  have m: "security_main None example_ifaces always_attached
        [client_rx (21 / 10), rogue_rx (13 / 5), client_rx (31 / 10)] =
     \<lparr>g_acl = [167837954], g_numAuthorized = 1, g_numUnauthorized = 1,
      log_lines = [(Authorized, 167837954, 1024), (Unauthorized, 167837955, 512)]\<rparr>"
    by (simp add: security_eval)
  have l: "length (filter (from_source (clientIp example_ifaces))
             (filter (at_hub (security_setup example_ifaces))
                [client_rx (21 / 10), rogue_rx (13 / 5), client_rx (31 / 10)])) = 2"
    by (simp add: at_hub_def from_source_def security_eval)
  from access_control_scenario_counts [of None example_ifaces always_attached
      "[client_rx (21 / 10), rogue_rx (13 / 5), client_rx (31 / 10)]"] m l
  show ?thesis by (simp add: example_ifaces_def)
qed

subsection \<open>The stop time\<close>

text \<open>
  Claim C7. The configured simulation duration should be the only temporal bound of a run:
  the event loop halts at the configured stop time and no observation is later than it.
  \<^verbatim>\<open>security.cc\<close> registers \<open>simTime\<close> with the command line under the help text
  "Simulation time in seconds" and never reads it again: the stop time handed to the event
  loop is the literal 3.0. With \<open>simTime = 2\<close> a packet of the rogue that arrives at 2.5 s
  is dispatched and counted, half a second after the configured duration.
\<close>

theorem security_stop_time_ignores_simTime:
  "security_cmd_Parse (Some 2) = 2 \<and>
   sec_stopTime (security_setup example_ifaces) = 3 \<and>
   fst (rogue_rx (5 / 2)) = 5 / 2 \<and>
   Simulator_Run (sec_stopTime (security_setup example_ifaces)) [rogue_rx (5 / 2)]
     = [rogue_rx (5 / 2)] \<and>
   security_main (Some 2) example_ifaces always_attached [rogue_rx (5 / 2)] =
     \<lparr>g_acl = [167837954], g_numAuthorized = 0, g_numUnauthorized = 1,
      log_lines = [(Unauthorized, 167837955, 512)]\<rparr>"
  by (simp add: security_eval)

subsection \<open>Trace registration\<close>

text \<open>
  Claim C10, as the specification states it: a trace point that does not exist on the
  target handle is a fatal error at setup time. The program discards the result of
  \<^verbatim>\<open>TraceConnectWithoutContext\<close>. When the server device has no \<open>PhyRxEnd\<close> trace source,
  the run proceeds, a packet of the rogue reaches the hub at 2.5 s, and the program
  reports zero authorized and zero unauthorized packets.
\<close>

theorem failed_binding_is_ignored:
  "attach_inspection never_attached (serverDevices (security_setup example_ifaces)) = [] \<and>
   filter (at_hub (security_setup example_ifaces))
     (Simulator_Run (sec_stopTime (security_setup example_ifaces)) [rogue_rx (5 / 2)])
     = [rogue_rx (5 / 2)] \<and>
   security_main None example_ifaces never_attached [rogue_rx (5 / 2)] =
     \<lparr>g_acl = [167837954], g_numAuthorized = 0, g_numUnauthorized = 0, log_lines = []\<rparr>"
  by (simp add: at_hub_def security_eval)

text \<open>
  Claim C10, amended. The program does not check the result of a trace registration and
  has no error path for it. When no server device has the requested trace source, the
  access-control run completes and reports the initial state, zero authorized and zero
  unauthorized packets, whatever arrives at the hub. In scenario A the energy callback
  only appends to the energy log, so the report is the same whether or not the
  registration on each energy source succeeded.
\<close>

theorem unchecked_trace_registration:
  "(attach_inspection has_PhyRxEnd (serverDevices (security_setup ifaces)) = [] \<longrightarrow>
      security_main a ifaces has_PhyRxEnd queue = security_initial (security_setup ifaces)) \<and>
   iot_main args attached iot_queue = iot_main args attached' iot_queue"
proof -
  have 1: "security_main a ifaces has_PhyRxEnd queue = security_initial (security_setup ifaces)"
    if "attach_inspection has_PhyRxEnd (serverDevices (security_setup ifaces)) = []"
  proof -
    from that have "hub_received has_PhyRxEnd (security_setup ifaces) queue = []"
      by (simp add: hub_received_def)
    then show ?thesis by (simp add: security_main_eq security_initial_def)
  qed
  define c where "c = iot_cmd_Parse args"
  have "g_packetsReceived (iot_run attached (iot_setup c) iot_queue) =
          g_packetsReceived (iot_run attached' (iot_setup c) iot_queue) \<and>
        sources (iot_run attached (iot_setup c) iot_queue) =
          sources (iot_run attached' (iot_setup c) iot_queue)"
    unfolding iot_run_def by (rule report_without_log) simp_all
  then have 2: "iot_main args attached iot_queue = iot_main args attached' iot_queue"
    by (simp add: iot_main_def iot_report_def Let_def c_def split: sum.splits)
  from 1 2 show ?thesis by blast
qed

theorem unchecked_trace_registration_witness:
  "attach_inspection never_attached (serverDevices (security_setup example_ifaces)) = [] \<and>
   security_main None example_ifaces never_attached [client_rx (21 / 10), rogue_rx (13 / 5)] =
     \<lparr>g_acl = [167837954], g_numAuthorized = 0, g_numUnauthorized = 0, log_lines = []\<rparr> \<and>
   iot_main example_iot_args always_attached example_iot_queue =
     iot_main example_iot_args never_attached example_iot_queue"
proof -
  have h: "attach_inspection never_attached (serverDevices (security_setup example_ifaces)) = []"
    by (simp add: attach_inspection_def security_setup_def never_attached_def)
  from unchecked_trace_registration [where has_PhyRxEnd = never_attached
      and ifaces = example_ifaces and a = None
      and queue = "[client_rx (21 / 10), rogue_rx (13 / 5)]" and args = example_iot_args
      and attached = always_attached and iot_queue = example_iot_queue
      and attached' = never_attached] h
  show ?thesis by (simp add: security_initial_def security_setup_def example_ifaces_def)
qed

section \<open>Command-line values\<close>

text \<open>
  Claim C8, as the specification states it: a non-positive or otherwise invalid value of
  a command-line parameter makes the program fail with a configuration error before the
  topology is built. The program has no such check. With \<open>nIot = 0\<close> it builds the access
  point and no device, runs, and prints a full report; the conditional expressions of the
  report (\<^verbatim>\<open>totalTxPackets > 0\<close>, \<^verbatim>\<open>nIot > 0\<close>) give the value 0 to the ratio and to the
  average. With \<open>simTime = 0\<close> the access-control program also builds its scenario and
  runs.
\<close>

theorem zero_devices_are_accepted:
  "wapNode (iot_setup (iot_cmd_Parse \<lparr>arg_nIot = Some 0, arg_simulationTime = None\<rparr>)) = [0] \<and>
   iotNodes (iot_setup (iot_cmd_Parse \<lparr>arg_nIot = Some 0, arg_simulationTime = None\<rparr>)) = [] \<and>
   iot_main \<lparr>arg_nIot = Some 0, arg_simulationTime = None\<rparr> always_attached [] =
     Inr \<lparr>totalTxPackets = 0, packetsReceived = 0, pdr = 0, avgEnergyConsumed = 0\<rparr> \<and>
   iot_main \<lparr>arg_nIot = Some 0, arg_simulationTime = Some (- 5)\<rparr> always_attached [] =
     Inr \<lparr>totalTxPackets = 0, packetsReceived = 0, pdr = 0, avgEnergyConsumed = 0\<rparr> \<and>
   security_main (Some 0) example_ifaces always_attached [client_rx (21 / 10)] =
     \<lparr>g_acl = [167837954], g_numAuthorized = 1, g_numUnauthorized = 0,
      log_lines = [(Authorized, 167837954, 1024)]\<rparr>"
  by (simp add: iot_eval round_eval security_eval)

text \<open>
  Claim C8, amended. \<^verbatim>\<open>iot.cc\<close> does not validate a command-line value and has no
  configuration error. It registers only \<open>nIot\<close> and \<open>simulationTime\<close>; the initial energy
  is always 1 J and the distance is always 30. For every parsed value, including
  \<open>nIot = 0\<close> and a non-positive duration, it builds one access point, \<open>nIot\<close> devices and
  one flow per device, and hands the duration to the event loop as the stop time.
\<close>

theorem no_command_line_validation:
  "wapNode (iot_setup (iot_cmd_Parse args)) = [0] \<and>
   length (iotNodes (iot_setup (iot_cmd_Parse args))) =
     unat (case arg_nIot args of None \<Rightarrow> 20 | Some n \<Rightarrow> n) \<and>
   length (clientApps (iot_setup (iot_cmd_Parse args))) =
     unat (case arg_nIot args of None \<Rightarrow> 20 | Some n \<Rightarrow> n) \<and>
   stopTime (iot_setup (iot_cmd_Parse args)) =
     (case arg_simulationTime args of None \<Rightarrow> 10 | Some t \<Rightarrow> round_to_double t) \<and>
   initialEnergyJ (iot_cmd_Parse args) = 1 \<and>
   distance (iot_cmd_Parse args) = 30"
  by (simp add: iot_setup_def iot_cmd_Parse_def)

end
